theory Spec2Isabelle
  imports Main "HOL-Library.Sublist"
begin

section \<open>The trends route of the AI news aggregator\<close>

text \<open>
  The development follows the route handler \<^verbatim>\<open>GET\<close> of \<^verbatim>\<open>/api/trends\<close> (the second
  module of \<^verbatim>\<open>src/app/page.jsx\<close>): the process-wide cache, the freshness decision, the
  construction of the search query, the relevance filter and the fallback on failure.

  JavaScript strings are modelled as Isabelle strings. The model is exact on ASCII text,
  which is all the vocabularies of the source contain; \<^verbatim>\<open>toLowerCase\<close> is modelled
  on the letters A to Z and leaves every other character as it is.
\<close>

subsection \<open>Strings\<close>

definition lower_char :: "char \<Rightarrow> char" where
  "lower_char c =
     (if 65 \<le> (of_char c :: nat) \<and> (of_char c :: nat) \<le> 90
      then char_of ((of_char c :: nat) + 32) else c)"

definition toLowerCase :: "string \<Rightarrow> string" where
  "toLowerCase s = map lower_char s"

text \<open>\<^verbatim>\<open>s.includes(p)\<close>: \<open>p\<close> occurs in \<open>s\<close> as a contiguous run of characters.\<close>

definition includes_str :: "string \<Rightarrow> string \<Rightarrow> bool" where
  "includes_str s p = sublist p s"

subsection \<open>The regular expression of the filter\<close>

text \<open>
  The pattern of the source is an alternation of character sequences in which the only
  operator is the dot. \<^verbatim>\<open>String.prototype.match\<close> returns a match object (truthy) when
  some alternative matches at some position of the subject, and \<^verbatim>\<open>null\<close> otherwise.
  Under the flag \<^verbatim>\<open>i\<close> two ASCII characters match when they are equal up to letter case;
  the dot matches every character but a line terminator.
\<close>

datatype re_atom = Chr char | Dot

definition line_terminator :: "char \<Rightarrow> bool" where
  "line_terminator c = (c = CHR 0x0A \<or> c = CHR 0x0D)"

fun atom_matches :: "re_atom \<Rightarrow> char \<Rightarrow> bool" where
  "atom_matches (Chr p) c = (lower_char p = lower_char c)"
| "atom_matches Dot c = (\<not> line_terminator c)"

fun match_here :: "re_atom list \<Rightarrow> string \<Rightarrow> bool" where
  "match_here [] s = True"
| "match_here (a # as) [] = False"
| "match_here (a # as) (c # cs) = (atom_matches a c \<and> match_here as cs)"

fun regex_match :: "re_atom list list \<Rightarrow> string \<Rightarrow> bool" where
  "regex_match alts [] = (\<exists>alt \<in> set alts. match_here alt [])"
| "regex_match alts (c # cs) =
     ((\<exists>alt \<in> set alts. match_here alt (c # cs)) \<or> regex_match alts cs)"

definition lit :: "string \<Rightarrow> re_atom list" where
  "lit w = map Chr w"

text \<open>\<^verbatim>\<open>/(ai|artificial|intelligence|machine|learning|neural|deep|ml|nlp|computer.vision|data.science)/i\<close>\<close>

definition ai_words :: "string list" where
  "ai_words = [''ai'', ''artificial'', ''intelligence'', ''machine'', ''learning'',
               ''neural'', ''deep'', ''ml'', ''nlp'']"

definition ai_regex :: "re_atom list list" where
  "ai_regex = map lit ai_words @
     [lit ''computer'' @ [Dot] @ lit ''vision'', lit ''data'' @ [Dot] @ lit ''science'']"

subsection \<open>Repositories and the relevance filter\<close>

record github_repository =
  repo_id :: int
  name :: string
  full_name :: string
  description :: "string option"
  stargazers_count :: int
  html_url :: string
  topics :: "string list option"
  updated_at :: string
  language :: "string option"
  created_at :: string

definition aiTopics :: "string list" where
  "aiTopics = [''ai'', ''machine-learning'', ''llm'', ''artificial-intelligence'',
               ''deep-learning'', ''neural-network'', ''tensorflow'', ''pytorch'', ''opencv'']"

text \<open>\<^verbatim>\<open>repo.topics || []\<close> and \<^verbatim>\<open>repo.description || ''\<close>.\<close>

definition topics_or_empty :: "github_repository \<Rightarrow> string list" where
  "topics_or_empty repo = (case topics repo of None \<Rightarrow> [] | Some ts \<Rightarrow> ts)"

definition description_or_empty :: "github_repository \<Rightarrow> string" where
  "description_or_empty repo = (case description repo of None \<Rightarrow> [] | Some d \<Rightarrow> d)"

definition hasAITopic :: "github_repository \<Rightarrow> bool" where
  "hasAITopic repo =
     (\<exists>topic \<in> set (topics_or_empty repo).
        \<exists>aiTopic \<in> set aiTopics. includes_str (toLowerCase topic) (toLowerCase aiTopic))"

definition name_and_description :: "github_repository \<Rightarrow> string" where
  "name_and_description repo = toLowerCase (name repo @ '' '' @ description_or_empty repo)"

definition nameOrDescHasAI :: "github_repository \<Rightarrow> bool" where
  "nameOrDescHasAI repo = regex_match ai_regex (name_and_description repo)"

definition keeps :: "github_repository \<Rightarrow> bool" where
  "keeps repo = ((hasAITopic repo \<or> nameOrDescHasAI repo) \<and> stargazers_count repo \<ge> 0)"

definition filteredRepositories :: "github_repository list \<Rightarrow> github_repository list" where
  "filteredRepositories repositories = filter keeps repositories"

subsection \<open>Numbers and text\<close>

text \<open>The decimal numeral of a number in a template literal, and zero-padded fields.\<close>

definition digit_char :: "nat \<Rightarrow> char" where
  "digit_char n = char_of (48 + n mod 10)"

fun show_nat :: "nat \<Rightarrow> string" where
  "show_nat n = (if n < 10 then [digit_char n] else show_nat (n div 10) @ [digit_char n])"

definition show_int :: "int \<Rightarrow> string" where
  "show_int i = (if i < 0 then ''-'' @ show_nat (nat (- i)) else show_nat (nat i))"

fun pad :: "nat \<Rightarrow> nat \<Rightarrow> string" where
  "pad 0 n = []"
| "pad (Suc w) n = pad w (n div 10) @ [digit_char n]"

text \<open>
  \<^verbatim>\<open>Math.round(x / 1000)\<close> for an integer number of milliseconds \<open>x\<close>: the nearest
  integer, a half rounding towards plus infinity.
\<close>

definition round_seconds :: "int \<Rightarrow> int" where
  "round_seconds x = (x + 500) div 1000"

text \<open>
  \<^verbatim>\<open>encodeURIComponent\<close>: letters, digits and \<^verbatim>\<open>- _ . ! ~ * ' ( )\<close> stay, every other
  character becomes a percent sign and two upper-case hexadecimal digits.
\<close>

definition hex_digit :: "nat \<Rightarrow> char" where
  "hex_digit n = (if n mod 16 < 10 then char_of (48 + n mod 16) else char_of (55 + n mod 16))"

definition uri_unreserved :: "char \<Rightarrow> bool" where
  "uri_unreserved c =
     (let n = (of_char c :: nat) in
      (65 \<le> n \<and> n \<le> 90) \<or> (97 \<le> n \<and> n \<le> 122) \<or> (48 \<le> n \<and> n \<le> 57)
      \<or> c \<in> set ''-_.!~*()'' \<or> n = 39)"

definition encode_char :: "char \<Rightarrow> string" where
  "encode_char c =
     (if uri_unreserved c then [c]
      else [CHR ''%'', hex_digit ((of_char c :: nat) div 16), hex_digit (of_char c :: nat)])"

definition encodeURIComponent :: "string \<Rightarrow> string" where
  "encodeURIComponent s = concat (map encode_char s)"

subsection \<open>Dates\<close>

text \<open>
  A \<^verbatim>\<open>Date\<close> holds a time value: milliseconds since the epoch, in UTC. The methods
  \<^verbatim>\<open>getDate\<close> and \<^verbatim>\<open>setDate\<close> work on the local time of the process, \<^verbatim>\<open>toISOString\<close>
  prints UTC. As in the language definition, the zone of the process is the function
  \<^verbatim>\<open>LocalTZA(t, isUTC)\<close>: the offset of local time from UTC in milliseconds, at the UTC
  time \<open>t\<close> when \<open>isUTC\<close> holds and at the local time \<open>t\<close> otherwise.
\<close>

type_synonym time_zone = "int \<Rightarrow> bool \<Rightarrow> int"

definition msPerDay :: int where
  "msPerDay = 86400000"

definition Day :: "int \<Rightarrow> int" where
  "Day t = t div msPerDay"

definition TimeWithinDay :: "int \<Rightarrow> int" where
  "TimeWithinDay t = t mod msPerDay"

text \<open>Year, month (1 to 12) and day of the month of a day number in the Gregorian calendar.\<close>

definition civil_from_days :: "int \<Rightarrow> int \<times> int \<times> int" where
  "civil_from_days n =
     (let z = n + 719468;
          era = z div 146097;
          doe = z - era * 146097;
          yoe = (doe - doe div 1460 + doe div 36524 - doe div 146096) div 365;
          doy = doe - (365 * yoe + yoe div 4 - yoe div 100);
          mp = (5 * doy + 2) div 153;
          d = doy - (153 * mp + 2) div 5 + 1;
          m = (if mp < 10 then mp + 3 else mp - 9);
          y = yoe + era * 400 + (if m \<le> 2 then 1 else 0)
      in (y, m, d))"

definition DateFromTime :: "int \<Rightarrow> int" where
  "DateFromTime t = (case civil_from_days (Day t) of (y, m, d) \<Rightarrow> d)"

definition LocalTime :: "time_zone \<Rightarrow> int \<Rightarrow> int" where
  "LocalTime zone t = t + zone t True"

definition UTC :: "time_zone \<Rightarrow> int \<Rightarrow> int" where
  "UTC zone t = t - zone t False"

definition getDate :: "time_zone \<Rightarrow> int \<Rightarrow> int" where
  "getDate zone t = DateFromTime (LocalTime zone t)"

text \<open>
  \<^verbatim>\<open>setDate(dt)\<close> keeps the local year, month and time of day and replaces the day of the
  month: the new local day number is that of the first of the month plus \<open>dt - 1\<close>, also
  when \<open>dt\<close> is zero or negative. The result is the new time value.
\<close>

definition setDate :: "time_zone \<Rightarrow> int \<Rightarrow> int \<Rightarrow> int" where
  "setDate zone t dt =
     (let local = LocalTime zone t;
          first_of_month = Day local - (DateFromTime local - 1);
          newDate = (first_of_month + dt - 1) * msPerDay + TimeWithinDay local
      in UTC zone newDate)"

definition year_string :: "int \<Rightarrow> string" where
  "year_string y =
     (if 0 \<le> y \<and> y \<le> 9999 then pad 4 (nat y)
      else if y < 0 then ''-'' @ pad 6 (nat (- y)) else ''+'' @ pad 6 (nat y))"

definition iso_date :: "int \<Rightarrow> string" where
  "iso_date n =
     (case civil_from_days n of (y, m, d) \<Rightarrow>
        year_string y @ ''-'' @ pad 2 (nat m) @ ''-'' @ pad 2 (nat d))"

definition toISOString :: "int \<Rightarrow> string" where
  "toISOString t =
     (let ms = TimeWithinDay t in
      iso_date (Day t) @ ''T'' @ pad 2 (nat (ms div 3600000)) @ '':''
        @ pad 2 (nat (ms div 60000 mod 60)) @ '':'' @ pad 2 (nat (ms div 1000 mod 60))
        @ ''.'' @ pad 3 (nat (ms mod 1000)) @ ''Z'')"

text \<open>\<^verbatim>\<open>s.split('T')[0]\<close>: the part of \<open>s\<close> before the first \<^verbatim>\<open>T\<close>.\<close>

definition before_T :: "string \<Rightarrow> string" where
  "before_T s = takeWhile (\<lambda>c. c \<noteq> CHR ''T'') s"

subsection \<open>The search query\<close>

text \<open>
  \<^verbatim>\<open>const date = new Date(); date.setDate(date.getDate() - 7);\<close>
  \<^verbatim>\<open>const dateString = date.toISOString().split('T')[0]\<close>, where \<open>t\<close> is the time at
  which \<^verbatim>\<open>new Date()\<close> reads the clock.
\<close>

definition dateString :: "time_zone \<Rightarrow> int \<Rightarrow> string" where
  "dateString zone t = before_T (toISOString (setDate zone t (getDate zone t - 7)))"

definition query :: "time_zone \<Rightarrow> int \<Rightarrow> string" where
  "query zone t = ''topic:ai created:>'' @ dateString zone t"

definition github_url :: "time_zone \<Rightarrow> int \<Rightarrow> string" where
  "github_url zone t =
     ''https://api.github.com/search/repositories?q='' @ encodeURIComponent (query zone t)
       @ ''&sort=stars&order=desc&per_page=30''"

text \<open>A zone without changes of offset, such as UTC.\<close>

definition fixed_zone :: "int \<Rightarrow> time_zone" where
  "fixed_zone offset = (\<lambda>t isUTC. offset)"

text \<open>
  Israel around the end of summer time in 2024: on 27 October at 02:00 local time
  (2024-10-26T23:00:00Z, the time value 1729983600000) the offset goes from three hours
  to two. A local time of the repeated hour is read with the offset before the change.
\<close>

definition jerusalem_autumn_2024 :: time_zone where
  "jerusalem_autumn_2024 =
     (\<lambda>t isUTC.
        if isUTC then (if t < 1729983600000 then 10800000 else 7200000)
        else (if t < 1729983600000 + 10800000 then 10800000 else 7200000))"

subsection \<open>The cache and the handler\<close>

text \<open>\<^verbatim>\<open>let cache = { data: null, lastFetch: 0 }\<close>; an array, also an empty one, is truthy.\<close>

record cache =
  data :: "github_repository list option"
  lastFetch :: int

definition initial_cache :: cache where
  "initial_cache = \<lparr>data = None, lastFetch = 0\<rparr>"

definition CACHE_DURATION :: int where
  "CACHE_DURATION = 5 * 60 * 1000"

text \<open>
  The request as the handler reads it: the search parameters of \<^verbatim>\<open>new URL(request.url)\<close>,
  or nothing when the constructor throws, which the handler catches.
\<close>

record request =
  searchParams :: "(string \<times> string) list option"

definition forceRefresh :: "request \<Rightarrow> bool" where
  "forceRefresh req =
     (case searchParams req of None \<Rightarrow> False | Some ps \<Rightarrow> ''t'' \<in> set (map fst ps))"

text \<open>
  What \<^verbatim>\<open>fetch\<close> and the response give back. A thrown value is an \<^verbatim>\<open>Error\<close> with its
  message or something else. The response has its status, the outcome of \<^verbatim>\<open>text()\<close>
  (only whether it throws matters: the text is logged and dropped) and the outcome of
  \<^verbatim>\<open>json()\<close>: a thrown value, a body without \<^verbatim>\<open>items\<close>, or the items.
\<close>

datatype js_thrown = Error string | Not_an_error

record http_response =
  http_status :: int
  text_throws :: "js_thrown option"
  json :: "js_thrown + github_repository list option"

datatype fetch_outcome = Rejects js_thrown | Resolves http_response

definition ok :: "http_response \<Rightarrow> bool" where
  "ok r = (200 \<le> http_status r \<and> http_status r \<le> 299)"

text \<open>
  The three readings of the clock: \<^verbatim>\<open>Date.now()\<close> at the start of the handler,
  \<^verbatim>\<open>new Date()\<close> for the query, and \<^verbatim>\<open>Date.now()\<close> in the catch block.
\<close>

record clock =
  now :: int
  query_time :: int
  catch_time :: int

text \<open>
  The body and the options given to \<^verbatim>\<open>NextResponse.json\<close>; a key that the source leaves
  out is \<open>None\<close>. The status is 200 unless the options set it.
\<close>

record trends_body =
  repositories :: "github_repository list"
  cached_at :: "string option"
  total_count :: int
  cache_age_seconds :: "int option"
  warning :: "string option"
  error :: "string option"

record next_response =
  body :: trends_body
  status :: int
  headers :: "(string \<times> string) list"

definition cache_headers :: "(string \<times> string) list" where
  "cache_headers = [(''Cache-Control'', ''public, s-maxage=300, stale-while-revalidate=600'')]"

definition cached_response :: "github_repository list \<Rightarrow> int \<Rightarrow> int \<Rightarrow> next_response" where
  "cached_response d fetched cacheAge =
     \<lparr>body = \<lparr>repositories = d, cached_at = Some (toISOString fetched),
              total_count = int (length d), cache_age_seconds = Some (round_seconds cacheAge),
              warning = None, error = None\<rparr>,
      status = 200, headers = cache_headers\<rparr>"

definition stale_response ::
  "string \<Rightarrow> github_repository list \<Rightarrow> int \<Rightarrow> int \<Rightarrow> next_response" where
  "stale_response w d fetched cacheAge =
     \<lparr>body = \<lparr>repositories = d, cached_at = Some (toISOString fetched),
              total_count = int (length d), cache_age_seconds = Some (round_seconds cacheAge),
              warning = Some w, error = None\<rparr>,
      status = 200, headers = []\<rparr>"

definition fresh_response :: "github_repository list \<Rightarrow> int \<Rightarrow> next_response" where
  "fresh_response d fetched =
     \<lparr>body = \<lparr>repositories = d, cached_at = Some (toISOString fetched),
              total_count = int (length d), cache_age_seconds = Some 0,
              warning = None, error = None\<rparr>,
      status = 200, headers = cache_headers\<rparr>"

text \<open>\<^verbatim>\<open>error instanceof Error ? error.message : 'Failed to fetch repositories'\<close>\<close>

definition error_message :: "js_thrown \<Rightarrow> string" where
  "error_message e =
     (case e of Error message \<Rightarrow> message | Not_an_error \<Rightarrow> ''Failed to fetch repositories'')"

definition error_response :: "js_thrown \<Rightarrow> next_response" where
  "error_response e =
     \<lparr>body = \<lparr>repositories = [], cached_at = None, total_count = 0,
              cache_age_seconds = None, warning = None, error = Some (error_message e)\<rparr>,
      status = 500, headers = []\<rparr>"

text \<open>
  The result of one call of the handler: the response, the cache it leaves, and the
  addresses it asked \<^verbatim>\<open>fetch\<close> for, in order.
\<close>

record 'a outcome =
  result :: 'a
  cache_after :: cache
  fetched :: "string list"

text \<open>The non-2xx branch, after \<^verbatim>\<open>response.text()\<close> has returned.\<close>

definition upstream_error :: "cache \<Rightarrow> int \<Rightarrow> http_response \<Rightarrow> js_thrown + next_response" where
  "upstream_error c cacheAge r =
     (case data c of
        Some d \<Rightarrow>
          Inr (stale_response ''Using stale cached data due to GitHub API error'' d
                 (lastFetch c) cacheAge)
      | None \<Rightarrow>
          if http_status r = 403
          then Inl (Error ''GitHub API rate limit exceeded. Please try again later.'')
          else Inl (Error (''GitHub API error: '' @ show_int (http_status r))))"

text \<open>The body of the \<^verbatim>\<open>try\<close> block: a response, or the value thrown.\<close>

definition GET_try ::
  "time_zone \<Rightarrow> clock \<Rightarrow> (string \<Rightarrow> fetch_outcome) \<Rightarrow> cache \<Rightarrow> request
     \<Rightarrow> (js_thrown + next_response) outcome" where
  "GET_try zone clk fetch c req =
     (let cacheAge = now clk - lastFetch c;
          isCacheValid = (data c \<noteq> None \<and> cacheAge < CACHE_DURATION)
      in case (if \<not> forceRefresh req \<and> isCacheValid then data c else None) of
           Some d \<Rightarrow>
             \<lparr>result = Inr (cached_response d (lastFetch c) cacheAge),
              cache_after = c, fetched = []\<rparr>
         | None \<Rightarrow>
             (let url = github_url zone (query_time clk) in
              case fetch url of
                Rejects e \<Rightarrow> \<lparr>result = Inl e, cache_after = c, fetched = [url]\<rparr>
              | Resolves r \<Rightarrow>
                  if \<not> ok r then
                    (case text_throws r of
                       Some e \<Rightarrow> \<lparr>result = Inl e, cache_after = c, fetched = [url]\<rparr>
                     | None \<Rightarrow>
                         \<lparr>result = upstream_error c cacheAge r, cache_after = c,
                          fetched = [url]\<rparr>)
                  else
                    (case json r of
                       Inl e \<Rightarrow> \<lparr>result = Inl e, cache_after = c, fetched = [url]\<rparr>
                     | Inr None \<Rightarrow>
                         \<lparr>result =
                            Inl (Error ''Cannot read properties of undefined (reading 'length')''),
                          cache_after = c, fetched = [url]\<rparr>
                     | Inr (Some items) \<Rightarrow>
                         (let filtered = filteredRepositories items in
                          \<lparr>result = Inr (fresh_response filtered (now clk)),
                           cache_after = \<lparr>data = Some filtered, lastFetch = now clk\<rparr>,
                           fetched = [url]\<rparr>))))"

text \<open>The \<^verbatim>\<open>catch\<close> block, on the cache as the \<^verbatim>\<open>try\<close> block left it.\<close>

definition GET_catch :: "clock \<Rightarrow> cache \<Rightarrow> js_thrown \<Rightarrow> next_response" where
  "GET_catch clk c e =
     (case data c of
        Some d \<Rightarrow>
          stale_response ''Using stale cached data due to API error'' d (lastFetch c)
            (catch_time clk - lastFetch c)
      | None \<Rightarrow> error_response e)"

definition GET ::
  "time_zone \<Rightarrow> clock \<Rightarrow> (string \<Rightarrow> fetch_outcome) \<Rightarrow> cache \<Rightarrow> request
     \<Rightarrow> next_response outcome" where
  "GET zone clk fetch c req =
     (let t = GET_try zone clk fetch c req in
      case result t of
        Inr response \<Rightarrow>
          \<lparr>result = response, cache_after = cache_after t, fetched = fetched t\<rparr>
      | Inl e \<Rightarrow>
          \<lparr>result = GET_catch clk (cache_after t) e, cache_after = cache_after t,
           fetched = fetched t\<rparr>)"

text \<open>The ways in which the call of the search API can fail.\<close>

definition upstream_fails :: "fetch_outcome \<Rightarrow> bool" where
  "upstream_fails out =
     (case out of
        Rejects e \<Rightarrow> True
      | Resolves r \<Rightarrow> \<not> ok r \<or> (case json r of Inr (Some items) \<Rightarrow> False | _ \<Rightarrow> True))"

text \<open>
  The value thrown by \<^verbatim>\<open>fetch\<close>, by \<^verbatim>\<open>response.text()\<close> or by \<^verbatim>\<open>response.json()\<close>,
  if one of them throws.
\<close>

definition thrown_by :: "fetch_outcome \<Rightarrow> js_thrown option" where
  "thrown_by out =
     (case out of
        Rejects e \<Rightarrow> Some e
      | Resolves r \<Rightarrow>
          if \<not> ok r then text_throws r
          else (case json r of Inl e \<Rightarrow> Some e | Inr items \<Rightarrow> None))"

text \<open>Whether a request is answered from the cache without asking the search API.\<close>

definition served_from_cache :: "clock \<Rightarrow> cache \<Rightarrow> request \<Rightarrow> bool" where
  "served_from_cache clk c req =
     (\<not> forceRefresh req \<and> data c \<noteq> None \<and> now clk - lastFetch c < CACHE_DURATION)"

subsection \<open>The filter in the words of the specification\<close>

text \<open>
  The specification describes the filter so: a record is kept if its topic set contains,
  without regard to letter case, a term of the AI vocabulary, or if its name or its
  description contains, without regard to letter case, one of the words ai, artificial,
  intelligence, machine, learning, neural, deep, ml, nlp, computer vision, data science.
  The two definitions below follow these words: a topic that is a term of the vocabulary,
  and a word that occurs in the name or in the description.
\<close>

definition spec_ai_words :: "string list" where
  "spec_ai_words = ai_words @ [''computer vision'', ''data science'']"

definition spec_has_ai_topic :: "github_repository \<Rightarrow> bool" where
  "spec_has_ai_topic repo =
     (\<exists>topic \<in> set (topics_or_empty repo). toLowerCase topic \<in> set aiTopics)"

definition spec_has_ai_word :: "github_repository \<Rightarrow> bool" where
  "spec_has_ai_word repo =
     (\<exists>w \<in> set spec_ai_words.
        sublist w (toLowerCase (name repo))
        \<or> sublist w (toLowerCase (description_or_empty repo)))"

subsection \<open>Sample data\<close>

definition ledger_repo :: github_repository where
  "ledger_repo =
     \<lparr>repo_id = 7, name = ''ledger'', full_name = ''acme/ledger'',
      description = Some ''consensus engine'', stargazers_count = 12,
      html_url = ''https://github.com/acme/ledger'', topics = Some [''blockchain''],
      updated_at = ''2024-10-29T10:00:00Z'', language = Some ''Go'',
      created_at = ''2024-10-25T10:00:00Z''\<rparr>"

definition data_repo :: github_repository where
  "data_repo =
     \<lparr>repo_id = 8, name = ''data'', full_name = ''acme/data'',
      description = Some ''science'', stargazers_count = 3,
      html_url = ''https://github.com/acme/data'', topics = None,
      updated_at = ''2024-10-29T10:00:00Z'', language = None,
      created_at = ''2024-10-25T10:00:00Z''\<rparr>"

definition vision_repo :: github_repository where
  "vision_repo =
     \<lparr>repo_id = 1, name = ''Vision-Kit'', full_name = ''acme/Vision-Kit'',
      description = Some ''A NEURAL toolkit'', stargazers_count = 50,
      html_url = ''https://github.com/acme/Vision-Kit'', topics = Some [''Machine-Learning''],
      updated_at = ''2024-10-29T10:00:00Z'', language = Some ''Python'',
      created_at = ''2024-10-25T10:00:00Z''\<rparr>"

definition parser_repo :: github_repository where
  "parser_repo =
     \<lparr>repo_id = 2, name = ''fast-json'', full_name = ''acme/fast-json'',
      description = None, stargazers_count = 1000,
      html_url = ''https://github.com/acme/fast-json'', topics = Some [''json''],
      updated_at = ''2024-10-29T10:00:00Z'', language = Some ''C'',
      created_at = ''2024-10-25T10:00:00Z''\<rparr>"

definition chat_repo :: github_repository where
  "chat_repo =
     \<lparr>repo_id = 3, name = ''chat'', full_name = ''acme/chat'',
      description = Some ''An LLM front end'', stargazers_count = 10,
      html_url = ''https://github.com/acme/chat'', topics = Some [''llm''],
      updated_at = ''2024-10-29T10:00:00Z'', language = None,
      created_at = ''2024-10-25T10:00:00Z''\<rparr>"

text \<open>A cache filled at 2024-10-30T00:00:00Z, and clocks 30 seconds and 30 minutes later.\<close>

definition filled_cache :: cache where
  "filled_cache = \<lparr>data = Some [vision_repo, chat_repo], lastFetch = 1730246400000\<rparr>"

definition clock_30s :: clock where
  "clock_30s = \<lparr>now = 1730246430000, query_time = 1730246430001, catch_time = 1730246430900\<rparr>"

definition clock_30min :: clock where
  "clock_30min = \<lparr>now = 1730248200000, query_time = 1730248200001, catch_time = 1730248200900\<rparr>"

definition plain_request :: request where
  "plain_request = \<lparr>searchParams = Some []\<rparr>"

definition refresh_request :: request where
  "refresh_request = \<lparr>searchParams = Some [(''t'', ''1730246430000'')]\<rparr>"

definition fetch_503 :: "string \<Rightarrow> fetch_outcome" where
  "fetch_503 url =
     Resolves \<lparr>http_status = 503, text_throws = None, json = Inl (Error ''Unexpected token'')\<rparr>"

definition fetch_down :: "string \<Rightarrow> fetch_outcome" where
  "fetch_down url = Rejects (Error ''fetch failed'')"

definition fetch_odd :: "string \<Rightarrow> fetch_outcome" where
  "fetch_odd url = Rejects Not_an_error"

definition fetch_three :: "string \<Rightarrow> fetch_outcome" where
  "fetch_three url =
     Resolves \<lparr>http_status = 200, text_throws = None,
               json = Inr (Some [parser_repo, vision_repo, chat_repo])\<rparr>"

section \<open>The summarisation route\<close>

text \<open>
  Modelled from the spec: the route \<^verbatim>\<open>POST /api/summarize\<close> (the SummarizeRouter), whose
  module \<^verbatim>\<open>app/api/summarize/route\<close> is not among the sources; only its caller
  \<^verbatim>\<open>handleSummarize\<close> and the type of its request are. The specification says: the
  operation fails with a validation error if the text is empty, if the credential is
  empty, or if the provider selector is not one of the supported values (two providers,
  \<^verbatim>\<open>openai\<close> and \<^verbatim>\<open>groq\<close>); otherwise it routes the request to the endpoint of the chosen
  provider and returns the summary and the provider used, or fails with a provider error
  that carries the status and a message. The result is paired with the calls made to
  provider endpoints, in order.
\<close>

datatype provider = OpenAI | Groq

datatype summarize_error = ValidationError | ProviderError int string

record summarize_request =
  text_to_summarize :: string
  credential :: string
  providerSelector :: string

record provider_call =
  target :: provider
  api_key :: string
  subject :: string

definition parse_provider :: "string \<Rightarrow> provider option" where
  "parse_provider p =
     (if p = ''openai'' then Some OpenAI else if p = ''groq'' then Some Groq else None)"

definition summarize ::
  "(provider_call \<Rightarrow> (int \<times> string) + string) \<Rightarrow> summarize_request
     \<Rightarrow> (summarize_error + string \<times> provider) \<times> provider_call list" where
  "summarize call_provider req =
     (if text_to_summarize req = [] \<or> credential req = [] then (Inl ValidationError, [])
      else case parse_provider (providerSelector req) of
             None \<Rightarrow> (Inl ValidationError, [])
           | Some p \<Rightarrow>
               (let c = \<lparr>target = p, api_key = credential req,
                         subject = text_to_summarize req\<rparr>
                in case call_provider c of
                     Inl (st, message) \<Rightarrow> (Inl (ProviderError st message), [c])
                   | Inr summary \<Rightarrow> (Inr (summary, p), [c])))"

section \<open>Properties of the handler\<close>

subsection \<open>The paths through the handler\<close>

lemma GET_served_from_cache:
  assumes "data c = Some d" "served_from_cache clk c req"
  shows "GET zone clk fetch c req =
           \<lparr>result = cached_response d (lastFetch c) (now clk - lastFetch c),
            cache_after = c, fetched = []\<rparr>"
  using assms by (simp add: GET_def GET_try_def served_from_cache_def)

lemma GET_try_refresh:
  assumes "\<not> served_from_cache clk c req"
  shows "fetched (GET_try zone clk fetch c req) = [github_url zone (query_time clk)]"
  using assms
  by (auto simp: GET_try_def served_from_cache_def Let_def
           split: fetch_outcome.splits option.splits sum.splits)

lemma GET_fetched: "fetched (GET zone clk fetch c req) = fetched (GET_try zone clk fetch c req)"
  by (simp add: GET_def Let_def split: sum.splits)

lemma GET_cache_after:
  "cache_after (GET zone clk fetch c req) = cache_after (GET_try zone clk fetch c req)"
  by (simp add: GET_def Let_def split: sum.splits)

lemma GET_try_failure_cache:
  assumes "\<not> served_from_cache clk c req"
    and "upstream_fails (fetch (github_url zone (query_time clk)))"
  shows "cache_after (GET_try zone clk fetch c req) = c"
  using assms
  by (auto simp: GET_try_def served_from_cache_def upstream_fails_def upstream_error_def Let_def
           split: fetch_outcome.splits option.splits sum.splits if_splits)

lemma GET_try_failure_result:
  assumes "\<not> served_from_cache clk c req"
    and "upstream_fails (fetch (github_url zone (query_time clk)))"
    and "result (GET_try zone clk fetch c req) = Inr r"
  shows "\<exists>d. data c = Some d \<and>
             r = stale_response ''Using stale cached data due to GitHub API error'' d (lastFetch c)
                   (now clk - lastFetch c)"
  using assms
  by (auto simp: GET_try_def served_from_cache_def upstream_fails_def upstream_error_def Let_def
           split: fetch_outcome.splits option.splits sum.splits if_splits)

subsection \<open>Serving from the cache\<close>

text \<open>
  Claim C1 (freshness gating). When the cache holds data, the age of the cache (the time
  of the request minus the stored fetch time) is below five minutes and the request has
  no \<^verbatim>\<open>t\<close> parameter, the response carries exactly the stored sequence and the stored
  fetch time (as an ISO string), has status 200, no warning and no error, the search API
  is not called, and the cache stays as it was. The body has no staleness flag of its
  own: a stale answer is told by the \<^verbatim>\<open>warning\<close> key, which is absent here.
\<close>

theorem freshness_gating:
  assumes "data c = Some d"
    and "now clk - lastFetch c < CACHE_DURATION"
    and "\<not> forceRefresh req"
  shows "repositories (body (result (GET zone clk fetch c req))) = d
       \<and> cached_at (body (result (GET zone clk fetch c req))) = Some (toISOString (lastFetch c))
       \<and> warning (body (result (GET zone clk fetch c req))) = None
       \<and> error (body (result (GET zone clk fetch c req))) = None
       \<and> status (result (GET zone clk fetch c req)) = 200
       \<and> fetched (GET zone clk fetch c req) = []
       \<and> cache_after (GET zone clk fetch c req) = c"
proof -
  from assms have "served_from_cache clk c req" by (simp add: served_from_cache_def)
  from GET_served_from_cache [OF assms(1) this] show ?thesis
    by (simp add: cached_response_def)
qed

theorem freshness_gating_witness:
  "data filled_cache = Some [vision_repo, chat_repo]
   \<and> now clock_30s - lastFetch filled_cache < CACHE_DURATION
   \<and> \<not> forceRefresh plain_request
   \<and> repositories (body (result (GET (fixed_zone 0) clock_30s fetch_down filled_cache plain_request)))
        = [vision_repo, chat_repo]
   \<and> cached_at (body (result (GET (fixed_zone 0) clock_30s fetch_down filled_cache plain_request)))
        = Some (toISOString 1730246400000)
   \<and> warning (body (result (GET (fixed_zone 0) clock_30s fetch_down filled_cache plain_request))) = None
   \<and> fetched (GET (fixed_zone 0) clock_30s fetch_down filled_cache plain_request) = []"
  using freshness_gating [of filled_cache "[vision_repo, chat_repo]" clock_30s plain_request
      "fixed_zone 0" fetch_down]
  by (simp add: filled_cache_def clock_30s_def plain_request_def forceRefresh_def
        CACHE_DURATION_def)

text \<open>
  Claim C2 (bypass forces refresh). When the address of the request has a search parameter
  \<^verbatim>\<open>t\<close>, whatever its value, the handler calls the search API exactly once, whatever the
  cache holds and however young it is.
\<close>

theorem bypass_forces_refresh:
  assumes "searchParams req = Some ps" and "(''t'', v) \<in> set ps"
  shows "forceRefresh req
       \<and> fetched (GET zone clk fetch c req) = [github_url zone (query_time clk)]"
proof -
  from assms have f: "forceRefresh req" by (force simp: forceRefresh_def)
  then have "\<not> served_from_cache clk c req" by (simp add: served_from_cache_def)
  with f show ?thesis by (simp add: GET_fetched GET_try_refresh)
qed

theorem bypass_forces_refresh_witness:
  "searchParams refresh_request = Some [(''t'', ''1730246430000'')]
   \<and> now clock_30s - lastFetch filled_cache < CACHE_DURATION
   \<and> fetched (GET (fixed_zone 0) clock_30s fetch_three filled_cache refresh_request)
        = [github_url (fixed_zone 0) 1730246430001]"
  using bypass_forces_refresh [of refresh_request "[(''t'', ''1730246430000'')]"
      "''1730246430000''" "fixed_zone 0" clock_30s fetch_three filled_cache]
  by (simp add: refresh_request_def filled_cache_def clock_30s_def CACHE_DURATION_def)

subsection \<open>Failure of the search API\<close>

lemma nearest_second:
  "1000 * ((ms + 500) div 1000) \<le> (ms::int) + 500 \<and> ms + 500 < 1000 * ((ms + 500) div 1000) + 1000"
proof -
  have "(ms + 500) div 1000 * 1000 + (ms + 500) mod 1000 = ms + 500"
    by (rule div_mult_mod_eq)
  moreover have "0 \<le> (ms + 500) mod 1000" "(ms + 500) mod 1000 < 1000"
    by simp_all
  ultimately show ?thesis by linarith
qed

lemma stale_result:
  assumes "data c = Some d"
    and "\<not> served_from_cache clk c req"
    and "upstream_fails (fetch (github_url zone (query_time clk)))"
  shows "result (GET zone clk fetch c req) =
           stale_response ''Using stale cached data due to GitHub API error'' d (lastFetch c)
             (now clk - lastFetch c)
       \<or> result (GET zone clk fetch c req) =
           stale_response ''Using stale cached data due to API error'' d (lastFetch c)
             (catch_time clk - lastFetch c)"
proof (cases "result (GET_try zone clk fetch c req)")
  case (Inl e)
  with GET_try_failure_cache assms
  have "result (GET zone clk fetch c req) =
          stale_response ''Using stale cached data due to API error'' d (lastFetch c)
            (catch_time clk - lastFetch c)"
    by (simp add: GET_def GET_catch_def)
  then show ?thesis by simp
next
  case (Inr r)
  with GET_try_failure_result [of clk c req fetch zone r] assms
  have "result (GET zone clk fetch c req) =
          stale_response ''Using stale cached data due to GitHub API error'' d (lastFetch c)
            (now clk - lastFetch c)"
    by (simp add: GET_def Let_def)
  then show ?thesis by simp
qed

lemma stale_result_try:
  assumes "data c = Some d"
    and "\<not> served_from_cache clk c req"
    and "fetch (github_url zone (query_time clk)) = Resolves r"
    and "\<not> ok r" and "text_throws r = None"
  shows "result (GET zone clk fetch c req) =
           stale_response ''Using stale cached data due to GitHub API error'' d (lastFetch c)
             (now clk - lastFetch c)"
  using assms
  by (auto simp: GET_def GET_try_def served_from_cache_def upstream_error_def Let_def)

lemma stale_result_catch:
  assumes "data c = Some d"
    and "\<not> served_from_cache clk c req"
    and "fetch (github_url zone (query_time clk)) = Rejects e"
  shows "result (GET zone clk fetch c req) =
           stale_response ''Using stale cached data due to API error'' d (lastFetch c)
             (catch_time clk - lastFetch c)"
  using assms
  by (auto simp: GET_def GET_try_def GET_catch_def served_from_cache_def Let_def)

text \<open>
  Claim C3 (stale fallback). When the cache holds data and the call of the search API
  fails (the promise rejects, the status is not 2xx, or the body cannot be read), the
  response has status 200 and no error, and carries the cached sequence, the time of its
  fetch, one of the two warning texts of the source, and the age of the cache in seconds:
  the milliseconds between the stored fetch time and the start of the handler (or its
  catch block), plus 500, divided by 1000 and rounded down, that is the nearest whole
  number of seconds.
\<close>

theorem stale_fallback:
  assumes "data c = Some d"
    and "\<not> served_from_cache clk c req"
    and "upstream_fails (fetch (github_url zone (query_time clk)))"
  shows "repositories (body (result (GET zone clk fetch c req))) = d
       \<and> cached_at (body (result (GET zone clk fetch c req))) = Some (toISOString (lastFetch c))
       \<and> (\<exists>w. warning (body (result (GET zone clk fetch c req))) = Some w \<and> w \<noteq> [])
       \<and> (warning (body (result (GET zone clk fetch c req)))
             = Some ''Using stale cached data due to GitHub API error''
          \<or> warning (body (result (GET zone clk fetch c req)))
             = Some ''Using stale cached data due to API error'')
       \<and> (cache_age_seconds (body (result (GET zone clk fetch c req)))
             = Some ((now clk - lastFetch c + 500) div 1000)
          \<or> cache_age_seconds (body (result (GET zone clk fetch c req)))
             = Some ((catch_time clk - lastFetch c + 500) div 1000))
       \<and> (\<exists>a ms. cache_age_seconds (body (result (GET zone clk fetch c req))) = Some a
             \<and> (ms = now clk - lastFetch c \<or> ms = catch_time clk - lastFetch c)
             \<and> 1000 * a \<le> ms + 500 \<and> ms + 500 < 1000 * a + 1000)
       \<and> status (result (GET zone clk fetch c req)) = 200
       \<and> error (body (result (GET zone clk fetch c req))) = None"
proof -
  from stale_result [OF assms(1,2)] assms(3)
  consider
    (in_try) "result (GET zone clk fetch c req) =
           stale_response ''Using stale cached data due to GitHub API error'' d (lastFetch c)
             (now clk - lastFetch c)"
  | (in_catch) "result (GET zone clk fetch c req) =
           stale_response ''Using stale cached data due to API error'' d (lastFetch c)
             (catch_time clk - lastFetch c)"
    by blast
  then show ?thesis
  proof cases
    case in_try
    have "\<exists>a ms. Some ((now clk - lastFetch c + 500) div 1000) = Some a
             \<and> (ms = now clk - lastFetch c \<or> ms = catch_time clk - lastFetch c)
             \<and> 1000 * a \<le> ms + 500 \<and> ms + 500 < 1000 * a + 1000"
      using nearest_second [of "now clk - lastFetch c"] by blast
    with in_try show ?thesis by (simp add: stale_response_def round_seconds_def)
  next
    case in_catch
    have "\<exists>a ms. Some ((catch_time clk - lastFetch c + 500) div 1000) = Some a
             \<and> (ms = now clk - lastFetch c \<or> ms = catch_time clk - lastFetch c)
             \<and> 1000 * a \<le> ms + 500 \<and> ms + 500 < 1000 * a + 1000"
      using nearest_second [of "catch_time clk - lastFetch c"] by blast
    with in_catch show ?thesis by (simp add: stale_response_def round_seconds_def)
  qed
qed

theorem stale_fallback_witness:
  "data filled_cache = Some [vision_repo, chat_repo]
   \<and> \<not> served_from_cache clock_30min filled_cache plain_request
   \<and> upstream_fails (fetch_503 (github_url (fixed_zone 0) (query_time clock_30min)))
   \<and> repositories (body (result (GET (fixed_zone 0) clock_30min fetch_503 filled_cache plain_request)))
        = [vision_repo, chat_repo]
   \<and> cached_at (body (result (GET (fixed_zone 0) clock_30min fetch_503 filled_cache plain_request)))
        = Some ''2024-10-30T00:00:00.000Z''
   \<and> warning (body (result (GET (fixed_zone 0) clock_30min fetch_503 filled_cache plain_request)))
        = Some ''Using stale cached data due to GitHub API error''
   \<and> cache_age_seconds (body (result (GET (fixed_zone 0) clock_30min fetch_503 filled_cache plain_request)))
        = Some 1800
   \<and> status (result (GET (fixed_zone 0) clock_30min fetch_503 filled_cache plain_request)) = 200
   \<and> cache_age_seconds (body (result (GET (fixed_zone 0) clock_30min fetch_down filled_cache plain_request)))
        = Some 1801
   \<and> warning (body (result (GET (fixed_zone 0) clock_30min fetch_down filled_cache plain_request)))
        = Some ''Using stale cached data due to API error''"
proof -
  let ?url = "github_url (fixed_zone 0) (query_time clock_30min)"
  have d: "data filled_cache = Some [vision_repo, chat_repo]"
    by (simp add: filled_cache_def)
  have n: "\<not> served_from_cache clock_30min filled_cache plain_request"
    by (simp add: served_from_cache_def filled_cache_def clock_30min_def CACHE_DURATION_def)
  have u: "upstream_fails (fetch_503 ?url)" "upstream_fails (fetch_down ?url)"
    by (simp_all add: upstream_fails_def fetch_503_def fetch_down_def ok_def)
  have iso: "toISOString (lastFetch filled_cache) = ''2024-10-30T00:00:00.000Z''"
    by code_simp
  have age: "now clock_30min - lastFetch filled_cache = 1800000"
    "catch_time clock_30min - lastFetch filled_cache = 1800900"
    by (simp_all add: clock_30min_def filled_cache_def)
  have r1: "result (GET (fixed_zone 0) clock_30min fetch_503 filled_cache plain_request) =
      stale_response ''Using stale cached data due to GitHub API error''
        [vision_repo, chat_repo] (lastFetch filled_cache) 1800000"
    using stale_result_try [OF d n, of fetch_503 "fixed_zone 0"] age
    by (simp add: fetch_503_def ok_def)
  have r2: "result (GET (fixed_zone 0) clock_30min fetch_down filled_cache plain_request) =
      stale_response ''Using stale cached data due to API error''
        [vision_repo, chat_repo] (lastFetch filled_cache) 1800900"
    using stale_result_catch [OF d n, of fetch_down "fixed_zone 0"] age
    by (simp add: fetch_down_def)
  have s: "round_seconds 1800000 = 1800" "round_seconds 1800900 = 1801"
    by (simp_all add: round_seconds_def)
  note t = stale_fallback [of filled_cache "[vision_repo, chat_repo]" clock_30min
      plain_request fetch_503 "fixed_zone 0"]
  show ?thesis
    unfolding r1 r2 using t d n u(1) iso s
    by (simp add: stale_response_def)
qed

lemma no_data_rejects:
  assumes "data c = None" and "fetch (github_url zone (query_time clk)) = Rejects e"
  shows "result (GET zone clk fetch c req) = error_response e"
  using assms by (simp add: GET_def GET_try_def GET_catch_def Let_def)

lemma no_data_text_throws:
  assumes "data c = None" and "fetch (github_url zone (query_time clk)) = Resolves r"
    and "\<not> ok r" and "text_throws r = Some e"
  shows "result (GET zone clk fetch c req) = error_response e"
  using assms by (simp add: GET_def GET_try_def GET_catch_def Let_def)

lemma no_data_status:
  assumes "data c = None" and "fetch (github_url zone (query_time clk)) = Resolves r"
    and "\<not> ok r" and "text_throws r = None"
  shows "result (GET zone clk fetch c req) =
           error_response (Error (if http_status r = 403
                     then ''GitHub API rate limit exceeded. Please try again later.''
                     else ''GitHub API error: '' @ show_int (http_status r)))"
  using assms by (simp add: GET_def GET_try_def GET_catch_def upstream_error_def Let_def)

lemma no_data_json_throws:
  assumes "data c = None" and "fetch (github_url zone (query_time clk)) = Resolves r"
    and "ok r" and "json r = Inl e"
  shows "result (GET zone clk fetch c req) = error_response e"
  using assms by (simp add: GET_def GET_try_def GET_catch_def Let_def)

lemma no_data_no_items:
  assumes "data c = None" and "fetch (github_url zone (query_time clk)) = Resolves r"
    and "ok r" and "json r = Inr None"
  shows "result (GET zone clk fetch c req) =
           error_response (Error ''Cannot read properties of undefined (reading 'length')'')"
  using assms by (simp add: GET_def GET_try_def GET_catch_def Let_def)

text \<open>
  Claim C4 (failure without data). When the cache is empty and the call of the search API
  fails, the response has status 500, an empty sequence of repositories, a count of zero
  and an error string. For a status that is not 2xx the string names the rate limit
  (status 403) or the status. When \<^verbatim>\<open>fetch\<close> or the reading of the body throws an error,
  the string is the message of that error; when the value thrown is not an error, the
  string is \<^verbatim>\<open>Failed to fetch repositories\<close>. The string is not empty, unless the error
  thrown has an empty message.
\<close>

theorem no_data_failure:
  assumes "data c = None"
    and "upstream_fails (fetch (github_url zone (query_time clk)))"
  shows "status (result (GET zone clk fetch c req)) = 500
       \<and> repositories (body (result (GET zone clk fetch c req))) = []
       \<and> total_count (body (result (GET zone clk fetch c req))) = 0
       \<and> (\<exists>message. error (body (result (GET zone clk fetch c req))) = Some message)
       \<and> (\<forall>r. fetch (github_url zone (query_time clk)) = Resolves r \<and> \<not> ok r
               \<and> text_throws r = None \<longrightarrow>
             error (body (result (GET zone clk fetch c req))) =
               Some (if http_status r = 403
                     then ''GitHub API rate limit exceeded. Please try again later.''
                     else ''GitHub API error: '' @ show_int (http_status r)))
       \<and> (\<forall>message. thrown_by (fetch (github_url zone (query_time clk))) = Some (Error message)
             \<longrightarrow> error (body (result (GET zone clk fetch c req))) = Some message)
       \<and> (thrown_by (fetch (github_url zone (query_time clk))) = Some Not_an_error
             \<longrightarrow> error (body (result (GET zone clk fetch c req)))
                   = Some ''Failed to fetch repositories'')
       \<and> (thrown_by (fetch (github_url zone (query_time clk))) \<noteq> Some (Error [])
             \<longrightarrow> (\<exists>message. error (body (result (GET zone clk fetch c req))) = Some message
                     \<and> message \<noteq> []))"
proof (cases "fetch (github_url zone (query_time clk))")
  case (Rejects e)
  then have t: "thrown_by (fetch (github_url zone (query_time clk))) = Some e"
    by (simp add: thrown_by_def)
  have "result (GET zone clk fetch c req) = error_response e"
    using assms(1) Rejects by (rule no_data_rejects)
  with t Rejects show ?thesis
    by (cases e) (simp_all add: error_response_def error_message_def)
next
  case (Resolves r)
  show ?thesis
  proof (cases "ok r")
    case False
    show ?thesis
    proof (cases "text_throws r")
      case None
      with Resolves False have t: "thrown_by (fetch (github_url zone (query_time clk))) = None"
        by (simp add: thrown_by_def)
      have "result (GET zone clk fetch c req) =
           error_response (Error (if http_status r = 403
                     then ''GitHub API rate limit exceeded. Please try again later.''
                     else ''GitHub API error: '' @ show_int (http_status r)))"
        using assms(1) Resolves False None by (rule no_data_status)
      with t Resolves False None show ?thesis
        by (simp add: error_response_def error_message_def)
    next
      case (Some e)
      with Resolves False have t: "thrown_by (fetch (github_url zone (query_time clk))) = Some e"
        by (simp add: thrown_by_def)
      have "result (GET zone clk fetch c req) = error_response e"
        using assms(1) Resolves False Some by (rule no_data_text_throws)
      with t Resolves False Some show ?thesis
        by (cases e) (simp_all add: error_response_def error_message_def)
    qed
  next
    case True
    show ?thesis
    proof (cases "json r")
      case (Inl e)
      with Resolves True have t: "thrown_by (fetch (github_url zone (query_time clk))) = Some e"
        by (simp add: thrown_by_def)
      have "result (GET zone clk fetch c req) = error_response e"
        using assms(1) Resolves True Inl by (rule no_data_json_throws)
      with t Resolves True show ?thesis
        by (cases e) (simp_all add: error_response_def error_message_def)
    next
      case (Inr items)
      with assms(2) Resolves True have n: "json r = Inr None"
        by (cases items) (simp_all add: upstream_fails_def)
      with Resolves True have t: "thrown_by (fetch (github_url zone (query_time clk))) = None"
        by (simp add: thrown_by_def)
      have "result (GET zone clk fetch c req) =
           error_response (Error ''Cannot read properties of undefined (reading 'length')'')"
        using assms(1) Resolves True n by (rule no_data_no_items)
      with t Resolves True n show ?thesis
        by (simp add: error_response_def error_message_def)
    qed
  qed
qed

theorem no_data_failure_witness:
  "data initial_cache = None
   \<and> upstream_fails (fetch_503 (github_url (fixed_zone 0) (query_time clock_30s)))
   \<and> status (result (GET (fixed_zone 0) clock_30s fetch_503 initial_cache plain_request)) = 500
   \<and> repositories (body (result (GET (fixed_zone 0) clock_30s fetch_503 initial_cache plain_request))) = []
   \<and> total_count (body (result (GET (fixed_zone 0) clock_30s fetch_503 initial_cache plain_request))) = 0
   \<and> error (body (result (GET (fixed_zone 0) clock_30s fetch_503 initial_cache plain_request)))
        = Some ''GitHub API error: 503''
   \<and> upstream_fails (fetch_down (github_url (fixed_zone 0) (query_time clock_30s)))
   \<and> thrown_by (fetch_down (github_url (fixed_zone 0) (query_time clock_30s)))
        = Some (Error ''fetch failed'')
   \<and> error (body (result (GET (fixed_zone 0) clock_30s fetch_down initial_cache plain_request)))
        = Some ''fetch failed''
   \<and> upstream_fails (fetch_odd (github_url (fixed_zone 0) (query_time clock_30s)))
   \<and> thrown_by (fetch_odd (github_url (fixed_zone 0) (query_time clock_30s))) = Some Not_an_error
   \<and> error (body (result (GET (fixed_zone 0) clock_30s fetch_odd initial_cache plain_request)))
        = Some ''Failed to fetch repositories''"
proof -
  let ?url = "github_url (fixed_zone 0) (query_time clock_30s)"
  have d: "data initial_cache = None" by (simp add: initial_cache_def)
  have u: "upstream_fails (fetch_503 ?url)" "upstream_fails (fetch_down ?url)"
    "upstream_fails (fetch_odd ?url)"
    by (simp_all add: upstream_fails_def fetch_503_def fetch_down_def fetch_odd_def ok_def)
  have t: "thrown_by (fetch_down ?url) = Some (Error ''fetch failed'')"
    "thrown_by (fetch_odd ?url) = Some Not_an_error"
    by (simp_all add: thrown_by_def fetch_down_def fetch_odd_def)
  have s: "show_int 503 = ''503''" by code_simp
  have f: "fetch_503 ?url
          = Resolves \<lparr>http_status = 503, text_throws = None, json = Inl (Error ''Unexpected token'')\<rparr>"
    by (simp add: fetch_503_def)
  note a = no_data_failure [of initial_cache fetch_503 "fixed_zone 0" clock_30s plain_request]
  note b = no_data_failure [of initial_cache fetch_down "fixed_zone 0" clock_30s plain_request]
  note c = no_data_failure [of initial_cache fetch_odd "fixed_zone 0" clock_30s plain_request]
  from a d u(1) f s have "status (result (GET (fixed_zone 0) clock_30s fetch_503 initial_cache plain_request)) = 500
   \<and> repositories (body (result (GET (fixed_zone 0) clock_30s fetch_503 initial_cache plain_request))) = []
   \<and> total_count (body (result (GET (fixed_zone 0) clock_30s fetch_503 initial_cache plain_request))) = 0
   \<and> error (body (result (GET (fixed_zone 0) clock_30s fetch_503 initial_cache plain_request)))
        = Some ''GitHub API error: 503''"
    by (simp add: ok_def)
  moreover from b d u(2) t(1)
  have "error (body (result (GET (fixed_zone 0) clock_30s fetch_down initial_cache plain_request)))
        = Some ''fetch failed''" by simp
  moreover from c d u(3) t(2)
  have "error (body (result (GET (fixed_zone 0) clock_30s fetch_odd initial_cache plain_request)))
        = Some ''Failed to fetch repositories''" by simp
  ultimately show ?thesis using d u t by simp
qed

subsection \<open>Writes to the cache\<close>

text \<open>
  Claim C10 (the cache is written only on success). A request answered from the cache
  and a request whose call of the search API fails leave the cache as it was; so does
  every request answered with status 500 or with a warning. When the cache changes, the
  search API has answered with a 2xx status and a list of items, and both fields are
  new together: the filtered items and the time of the request.
\<close>

theorem cache_written_only_on_success:
  "(served_from_cache clk c req \<or> upstream_fails (fetch (github_url zone (query_time clk)))
      \<longrightarrow> cache_after (GET zone clk fetch c req) = c)
   \<and> (status (result (GET zone clk fetch c req)) = 500
        \<or> warning (body (result (GET zone clk fetch c req))) \<noteq> None
      \<longrightarrow> cache_after (GET zone clk fetch c req) = c)
   \<and> (cache_after (GET zone clk fetch c req) = c
       \<or> (\<exists>r items. fetch (github_url zone (query_time clk)) = Resolves r \<and> ok r
             \<and> json r = Inr (Some items)
             \<and> cache_after (GET zone clk fetch c req)
                 = \<lparr>data = Some (filteredRepositories items), lastFetch = now clk\<rparr>))"
proof (intro conjI impI)
  assume "served_from_cache clk c req \<or> upstream_fails (fetch (github_url zone (query_time clk)))"
  then show "cache_after (GET zone clk fetch c req) = c"
    unfolding GET_cache_after
    by (cases "served_from_cache clk c req")
       (auto simp: GET_try_failure_cache, auto simp: GET_try_def served_from_cache_def)
next
  show "cache_after (GET zone clk fetch c req) = c
       \<or> (\<exists>r items. fetch (github_url zone (query_time clk)) = Resolves r \<and> ok r
             \<and> json r = Inr (Some items)
             \<and> cache_after (GET zone clk fetch c req)
                 = \<lparr>data = Some (filteredRepositories items), lastFetch = now clk\<rparr>)"
    unfolding GET_cache_after
    by (auto simp: GET_try_def Let_def
           split: fetch_outcome.splits option.splits sum.splits if_splits)
next
  assume a: "status (result (GET zone clk fetch c req)) = 500
        \<or> warning (body (result (GET zone clk fetch c req))) \<noteq> None"
  have "cache_after (GET_try zone clk fetch c req) = c
       \<or> result (GET_try zone clk fetch c req)
            = Inr (fresh_response (filteredRepositories
                (case fetch (github_url zone (query_time clk)) of
                   Resolves r \<Rightarrow> (case json r of Inr (Some items) \<Rightarrow> items))) (now clk))"
    by (auto simp: GET_try_def Let_def
           split: fetch_outcome.splits option.splits sum.splits if_splits)
  then show "cache_after (GET zone clk fetch c req) = c"
  proof
    assume "cache_after (GET_try zone clk fetch c req) = c"
    then show ?thesis by (simp add: GET_cache_after)
  next
    assume "result (GET_try zone clk fetch c req)
            = Inr (fresh_response (filteredRepositories
                (case fetch (github_url zone (query_time clk)) of
                   Resolves r \<Rightarrow> (case json r of Inr (Some items) \<Rightarrow> items))) (now clk))"
    then have "status (result (GET zone clk fetch c req)) = 200"
      and "warning (body (result (GET zone clk fetch c req))) = None"
      by (simp_all add: GET_def Let_def fresh_response_def)
    with a show ?thesis by simp
  qed
qed


theorem cache_written_only_on_success_witness:
  "upstream_fails (fetch_down (github_url (fixed_zone 0) (query_time clock_30min)))
   \<and> cache_after (GET (fixed_zone 0) clock_30min fetch_down filled_cache refresh_request) = filled_cache"
  using cache_written_only_on_success [of clock_30min filled_cache refresh_request fetch_down "fixed_zone 0"]
  by (simp add: upstream_fails_def fetch_down_def)

section \<open>Properties of the filter\<close>

subsection \<open>Lower case and the regular expression\<close>

lemma toLowerCase_append: "toLowerCase (a @ b) = toLowerCase a @ toLowerCase b"
  by (simp add: toLowerCase_def)

lemma lower_char_idem: "lower_char (lower_char c) = lower_char c"
  by (simp add: lower_char_def)

lemma toLowerCase_idem: "toLowerCase (toLowerCase s) = toLowerCase s"
  by (simp add: toLowerCase_def lower_char_idem)

lemma regex_match_iff:
  "regex_match alts s \<longleftrightarrow> (\<exists>alt \<in> set alts. \<exists>pre post. s = pre @ post \<and> match_here alt post)"
proof (induction s)
  case Nil
  then show ?case by auto
next
  case (Cons c cs)
  show ?case
  proof
    assume "regex_match alts (c # cs)"
    then consider "\<exists>alt \<in> set alts. match_here alt (c # cs)" | "regex_match alts cs" by auto
    then show "\<exists>alt \<in> set alts. \<exists>pre post. c # cs = pre @ post \<and> match_here alt post"
    proof cases
      case 1
      then show ?thesis by (metis append_Nil)
    next
      case 2
      with Cons.IH obtain alt pre post where "alt \<in> set alts" "cs = pre @ post" "match_here alt post"
        by blast
      then have "c # cs = (c # pre) @ post" by simp
      with \<open>alt \<in> set alts\<close> \<open>match_here alt post\<close> show ?thesis by blast
    qed
  next
    assume "\<exists>alt \<in> set alts. \<exists>pre post. c # cs = pre @ post \<and> match_here alt post"
    then obtain alt pre post where a: "alt \<in> set alts" "c # cs = pre @ post" "match_here alt post"
      by blast
    show "regex_match alts (c # cs)"
    proof (cases pre)
      case Nil
      with a show ?thesis by auto
    next
      case (Cons p pre')
      with a have "cs = pre' @ post" by simp
      with a Cons.IH show ?thesis by auto
    qed
  qed
qed

lemma match_here_lowered_lit:
  "toLowerCase w = w \<Longrightarrow> toLowerCase s = s \<Longrightarrow> match_here (lit w @ rest_alt) s \<longleftrightarrow> (\<exists>rest. s = w @ rest \<and> match_here rest_alt rest)"
proof (induction w arbitrary: s)
  case Nil
  then show ?case by (simp add: lit_def)
next
  case (Cons p w)
  show ?case
  proof (cases s)
    case Nil
    then show ?thesis by (simp add: lit_def)
  next
    case (Cons c cs)
    from Cons.prems have p: "lower_char p = p" "toLowerCase w = w" by (auto simp: toLowerCase_def)
    from Cons.prems(2) Cons have c: "lower_char c = c" "toLowerCase cs = cs" by (auto simp: toLowerCase_def)
    have "match_here (lit (p # w) @ rest_alt) s \<longleftrightarrow> p = c \<and> match_here (lit w @ rest_alt) cs"
      using p c Cons by (simp add: lit_def)
    also have "\<dots> \<longleftrightarrow> p = c \<and> (\<exists>rest. cs = w @ rest \<and> match_here rest_alt rest)"
      using Cons.IH [OF p(2) c(2)] by simp
    also have "\<dots> \<longleftrightarrow> (\<exists>rest. s = (p # w) @ rest \<and> match_here rest_alt rest)"
      using Cons by auto
    finally show ?thesis .
  qed
qed

lemma lowered_suffix: "toLowerCase s = pre @ post \<Longrightarrow> toLowerCase post = post"
proof -
  assume a: "toLowerCase s = pre @ post"
  have "toLowerCase (toLowerCase s) = toLowerCase s" by (rule toLowerCase_idem)
  with a have "toLowerCase pre @ toLowerCase post = pre @ post"
    by (simp add: toLowerCase_append)
  moreover have "length (toLowerCase pre) = length pre" by (simp add: toLowerCase_def)
  ultimately show ?thesis by simp
qed

lemma ai_words_lowered: "w \<in> set ai_words \<Longrightarrow> toLowerCase w = w"
  by (auto simp: ai_words_def toLowerCase_def lower_char_def)

lemma match_here_word:
  assumes "toLowerCase w = w" "toLowerCase s = s"
  shows "match_here (lit w) s \<longleftrightarrow> prefix w s"
  using match_here_lowered_lit [OF assms, of "[]"] by (auto simp: prefix_def)

lemma match_here_dotted:
  assumes "toLowerCase a = a" "toLowerCase b = b" "toLowerCase s = s"
  shows "match_here (lit a @ [Dot] @ lit b) s \<longleftrightarrow>
           (\<exists>c. \<not> line_terminator c \<and> prefix (a @ [c] @ b) s)"
proof
  assume "match_here (lit a @ [Dot] @ lit b) s"
  with match_here_lowered_lit [OF assms(1,3), of "[Dot] @ lit b"]
  obtain rest where r: "s = a @ rest" "match_here ([Dot] @ lit b) rest" by blast
  then obtain c rest' where c: "rest = c # rest'" "\<not> line_terminator c" "match_here (lit b) rest'"
    by (cases rest) auto
  from assms(3) r c have "toLowerCase rest' = rest'"
    by (simp add: toLowerCase_def)
  with c match_here_word [OF assms(2)] have "prefix b rest'" by simp
  with r c have "prefix (a @ [c] @ b) s" by (auto simp: prefix_def)
  with c show "\<exists>c. \<not> line_terminator c \<and> prefix (a @ [c] @ b) s" by blast
next
  assume "\<exists>c. \<not> line_terminator c \<and> prefix (a @ [c] @ b) s"
  then obtain c rest where c: "\<not> line_terminator c" "s = a @ c # b @ rest"
    by (auto simp: prefix_def)
  with assms(3) have "toLowerCase (b @ rest) = b @ rest" by (simp add: toLowerCase_def)
  with match_here_word [OF assms(2), of "b @ rest"] have "match_here (lit b) (b @ rest)" by simp
  with c have "match_here ([Dot] @ lit b) (c # b @ rest)" by simp
  with match_here_lowered_lit [OF assms(1,3), of "[Dot] @ lit b"] c show "match_here (lit a @ [Dot] @ lit b) s"
    by auto
qed

lemma sublist_iff_prefix_of_suffix:
  "sublist w s \<longleftrightarrow> (\<exists>pre post. s = pre @ post \<and> prefix w post)"
  by (auto simp: sublist_def prefix_def)

lemma regex_match_ai_regex:
  assumes "toLowerCase s = s"
  shows "regex_match ai_regex s \<longleftrightarrow>
           (\<exists>w \<in> set ai_words. sublist w s)
         \<or> (\<exists>c. \<not> line_terminator c \<and>
                (sublist (''computer'' @ [c] @ ''vision'') s \<or> sublist (''data'' @ [c] @ ''science'') s))"
    (is "?L \<longleftrightarrow> ?W \<or> ?D")
proof -
  have low: "toLowerCase post = post" if "s = pre @ post" for pre post
    using that assms lowered_suffix [of s pre post] by simp
  have cv: "toLowerCase ''computer'' = ''computer''" "toLowerCase ''vision'' = ''vision''"
    "toLowerCase ''data'' = ''data''" "toLowerCase ''science'' = ''science''"
    by (simp_all add: toLowerCase_def lower_char_def)
  have "?L \<longleftrightarrow> (\<exists>alt \<in> set ai_regex. \<exists>pre post. s = pre @ post \<and> match_here alt post)"
    by (rule regex_match_iff)
  also have "\<dots> \<longleftrightarrow>
      (\<exists>w \<in> set ai_words. \<exists>pre post. s = pre @ post \<and> match_here (lit w) post)
    \<or> (\<exists>pre post. s = pre @ post \<and> match_here (lit ''computer'' @ [Dot] @ lit ''vision'') post)
    \<or> (\<exists>pre post. s = pre @ post \<and> match_here (lit ''data'' @ [Dot] @ lit ''science'') post)"
    unfolding ai_regex_def by auto
  also have "(\<exists>w \<in> set ai_words. \<exists>pre post. s = pre @ post \<and> match_here (lit w) post) \<longleftrightarrow> ?W"
    using match_here_word [OF ai_words_lowered low] 
    unfolding sublist_iff_prefix_of_suffix by blast
  also have "(\<exists>pre post. s = pre @ post \<and> match_here (lit ''computer'' @ [Dot] @ lit ''vision'') post)
      \<longleftrightarrow> (\<exists>c. \<not> line_terminator c \<and> sublist (''computer'' @ [c] @ ''vision'') s)"
    using match_here_dotted [OF cv(1,2) low]
    unfolding sublist_iff_prefix_of_suffix by blast
  also have "(\<exists>pre post. s = pre @ post \<and> match_here (lit ''data'' @ [Dot] @ lit ''science'') post)
      \<longleftrightarrow> (\<exists>c. \<not> line_terminator c \<and> sublist (''data'' @ [c] @ ''science'') s)"
    using match_here_dotted [OF cv(3,4) low]
    unfolding sublist_iff_prefix_of_suffix by blast
  finally show ?thesis by blast
qed

lemma aiTopics_lowered: "term \<in> set aiTopics \<Longrightarrow> toLowerCase term = term"
  by (auto simp: aiTopics_def toLowerCase_def lower_char_def)

lemma hasAITopic_iff:
  "hasAITopic repo \<longleftrightarrow>
     (\<exists>topic \<in> set (topics_or_empty repo). \<exists>term \<in> set aiTopics. sublist term (toLowerCase topic))"
  by (auto simp: hasAITopic_def includes_str_def aiTopics_lowered)

lemma name_and_description_lowered:
  "toLowerCase (name_and_description repo) = name_and_description repo"
  by (simp add: name_and_description_def toLowerCase_idem)

lemma nameOrDescHasAI_iff:
  "nameOrDescHasAI repo \<longleftrightarrow>
     (\<exists>w \<in> set ai_words. sublist w (name_and_description repo))
   \<or> (\<exists>c. \<not> line_terminator c \<and>
          (sublist (''computer'' @ [c] @ ''vision'') (name_and_description repo)
           \<or> sublist (''data'' @ [c] @ ''science'') (name_and_description repo)))"
  unfolding nameOrDescHasAI_def
  by (rule regex_match_ai_regex) (rule name_and_description_lowered)

lemma sublist_toLowerCase: "sublist u d \<Longrightarrow> sublist (toLowerCase u) (toLowerCase d)"
  unfolding sublist_def by (metis toLowerCase_append)

lemma keeps_topic:
  assumes "0 \<le> stargazers_count repo" "topics repo = Some ts" "topic \<in> set ts"
    and "toLowerCase topic = ''machine-learning''"
  shows "keeps repo"
proof -
  have "''machine-learning'' \<in> set aiTopics" by (simp add: aiTopics_def)
  moreover have "sublist ''machine-learning'' (toLowerCase topic)" using assms(4) by simp
  moreover have "topic \<in> set (topics_or_empty repo)" using assms(2,3) by (simp add: topics_or_empty_def)
  ultimately have "hasAITopic repo" unfolding hasAITopic_iff by blast
  with assms(1) show ?thesis by (simp add: keeps_def)
qed

lemma keeps_description:
  assumes "0 \<le> stargazers_count repo" "description repo = Some d" "sublist u d"
    and "toLowerCase u = ''neural''"
  shows "keeps repo"
proof -
  from assms(3,4) have "sublist ''neural'' (toLowerCase d)"
    using sublist_toLowerCase [of u d] by simp
  then have "sublist ''neural'' (name_and_description repo)"
    using assms(2)
    by (simp add: name_and_description_def description_or_empty_def toLowerCase_append
          sublist_append sublist_Cons_right toLowerCase_def)
  moreover have "''neural'' \<in> set ai_words" by (simp add: ai_words_def)
  ultimately have "nameOrDescHasAI repo" unfolding nameOrDescHasAI_iff by blast
  with assms(1) show ?thesis by (simp add: keeps_def)
qed

subsection \<open>What the filter keeps\<close>

text \<open>
  Claim C6 (inclusion and exclusion), as the specification words it, fails in its second
  half: the source does not ask whether a topic is a term of the vocabulary but whether a
  topic includes a term as a substring, so the topic \<^verbatim>\<open>blockchain\<close>, which includes
  \<^verbatim>\<open>ai\<close>, is enough. The repository below has no topic of the AI vocabulary and none of
  the words in its name or description, and the filter keeps it.
\<close>

theorem filter_exclusion_counterexample:
  "\<not> spec_has_ai_topic ledger_repo \<and> \<not> spec_has_ai_word ledger_repo
   \<and> filteredRepositories [ledger_repo] = [ledger_repo]"
  by code_simp

text \<open>
  The second test differs too: the source searches the text made of the name, a space and
  the description, and its pattern has a dot between the two words of the last two
  alternatives. A repository named \<^verbatim>\<open>data\<close> and described as \<^verbatim>\<open>science\<close> is kept,
  though neither field contains the pair of words.
\<close>

lemma filter_joins_name_and_description:
  "\<not> spec_has_ai_topic data_repo \<and> \<not> spec_has_ai_word data_repo
   \<and> filteredRepositories [data_repo] = [data_repo]"
  by code_simp

text \<open>
  Claim C6, amended. For a repository of the input: with a star count that is not
  negative it is kept if one of its topics is \<^verbatim>\<open>machine-learning\<close> in any letter case, or
  if its description contains \<^verbatim>\<open>neural\<close> in any letter case. It is excluded if no topic,
  in lower case, includes a term of the AI vocabulary as a substring, and the lower-case
  text made of the name, a space and the description contains none of the nine single
  words, nor \<^verbatim>\<open>computer\<close> and \<^verbatim>\<open>vision\<close>, or \<^verbatim>\<open>data\<close> and \<^verbatim>\<open>science\<close>, with one
  character other than a line terminator between them. The star count decides nothing
  as long as it is not negative: the repository is then kept exactly when one of the two
  tests of the source holds.
\<close>

theorem filter_inclusion_exclusion:
  assumes "repo \<in> set items"
  shows "(0 \<le> stargazers_count repo \<and> topics repo = Some ts \<and> topic \<in> set ts
            \<and> toLowerCase topic = ''machine-learning''
          \<longrightarrow> repo \<in> set (filteredRepositories items))
       \<and> (0 \<le> stargazers_count repo \<and> description repo = Some d \<and> sublist u d
            \<and> toLowerCase u = ''neural''
          \<longrightarrow> repo \<in> set (filteredRepositories items))
       \<and> ((\<forall>topic \<in> set (topics_or_empty repo). \<forall>term \<in> set aiTopics.
               \<not> sublist term (toLowerCase topic))
            \<and> (\<forall>w \<in> set ai_words. \<not> sublist w (name_and_description repo))
            \<and> (\<forall>c. \<not> line_terminator c \<longrightarrow>
                  \<not> sublist (''computer'' @ [c] @ ''vision'') (name_and_description repo)
                  \<and> \<not> sublist (''data'' @ [c] @ ''science'') (name_and_description repo))
          \<longrightarrow> repo \<notin> set (filteredRepositories items))
       \<and> (0 \<le> stargazers_count repo
          \<longrightarrow> (repo \<in> set (filteredRepositories items)
                 \<longleftrightarrow> hasAITopic repo \<or> nameOrDescHasAI repo))"
proof (intro conjI impI)
  assume "0 \<le> stargazers_count repo \<and> topics repo = Some ts \<and> topic \<in> set ts
            \<and> toLowerCase topic = ''machine-learning''"
  then have "keeps repo" using keeps_topic by blast
  with assms show "repo \<in> set (filteredRepositories items)"
    by (simp add: filteredRepositories_def)
next
  assume "0 \<le> stargazers_count repo \<and> description repo = Some d \<and> sublist u d
            \<and> toLowerCase u = ''neural''"
  then have "keeps repo" using keeps_description by blast
  with assms show "repo \<in> set (filteredRepositories items)"
    by (simp add: filteredRepositories_def)
next
  assume a: "(\<forall>topic \<in> set (topics_or_empty repo). \<forall>term \<in> set aiTopics.
               \<not> sublist term (toLowerCase topic))
            \<and> (\<forall>w \<in> set ai_words. \<not> sublist w (name_and_description repo))
            \<and> (\<forall>c. \<not> line_terminator c \<longrightarrow>
                  \<not> sublist (''computer'' @ [c] @ ''vision'') (name_and_description repo)
                  \<and> \<not> sublist (''data'' @ [c] @ ''science'') (name_and_description repo))"
  then have "\<not> hasAITopic repo" unfolding hasAITopic_iff by blast
  moreover from a have "\<not> nameOrDescHasAI repo" unfolding nameOrDescHasAI_iff by blast
  ultimately show "repo \<notin> set (filteredRepositories items)"
    by (simp add: filteredRepositories_def keeps_def)
next
  assume "0 \<le> stargazers_count repo"
  with assms show "repo \<in> set (filteredRepositories items)
                 \<longleftrightarrow> hasAITopic repo \<or> nameOrDescHasAI repo"
    by (simp add: filteredRepositories_def keeps_def)
qed

theorem filter_inclusion_exclusion_witness:
  "vision_repo \<in> set [parser_repo, vision_repo, chat_repo]
   \<and> 0 \<le> stargazers_count vision_repo
   \<and> topics vision_repo = Some [''Machine-Learning'']
   \<and> toLowerCase ''Machine-Learning'' = ''machine-learning''
   \<and> description vision_repo = Some ''A NEURAL toolkit''
   \<and> sublist ''NEURAL'' ''A NEURAL toolkit''
   \<and> toLowerCase ''NEURAL'' = ''neural''
   \<and> vision_repo \<in> set (filteredRepositories [parser_repo, vision_repo, chat_repo])
   \<and> parser_repo \<in> set [parser_repo, vision_repo, chat_repo]
   \<and> \<not> hasAITopic parser_repo
   \<and> \<not> nameOrDescHasAI parser_repo
   \<and> parser_repo \<notin> set (filteredRepositories [parser_repo, vision_repo, chat_repo])"
proof -
  let ?items = "[parser_repo, vision_repo, chat_repo]"
  have v: "vision_repo \<in> set ?items" and p: "parser_repo \<in> set ?items" by simp_all
  have h1: "0 \<le> stargazers_count vision_repo"
    "topics vision_repo = Some [''Machine-Learning'']"
    "toLowerCase ''Machine-Learning'' = ''machine-learning''"
    by code_simp+
  have h2: "description vision_repo = Some ''A NEURAL toolkit''"
    "sublist ''NEURAL'' ''A NEURAL toolkit''"
    "toLowerCase ''NEURAL'' = ''neural''"
    by code_simp+
  have t: "\<not> hasAITopic parser_repo" by code_simp
  then have h3: "\<forall>topic \<in> set (topics_or_empty parser_repo). \<forall>term \<in> set aiTopics.
          \<not> sublist term (toLowerCase topic)"
    unfolding hasAITopic_iff by blast
  have n: "\<not> nameOrDescHasAI parser_repo" by code_simp
  from n have h4: "\<forall>w \<in> set ai_words. \<not> sublist w (name_and_description parser_repo)"
    unfolding nameOrDescHasAI_iff by blast
  from n have h5: "\<forall>c. \<not> line_terminator c \<longrightarrow>
          \<not> sublist (''computer'' @ [c] @ ''vision'') (name_and_description parser_repo)
          \<and> \<not> sublist (''data'' @ [c] @ ''science'') (name_and_description parser_repo)"
    unfolding nameOrDescHasAI_iff by blast
  from filter_inclusion_exclusion [OF v, where ts = "[''Machine-Learning'']"
      and topic = "''Machine-Learning''" and d = "''A NEURAL toolkit''" and u = "''NEURAL''"] h1 h2
  have k: "vision_repo \<in> set (filteredRepositories ?items)" by simp
  from filter_inclusion_exclusion [OF p] h3 h4 h5
  have x: "parser_repo \<notin> set (filteredRepositories ?items)" by blast
  from v p h1 h2 t n k x show ?thesis by blast
qed

text \<open>
  Claim C7 (rank preservation). The filtered sequence is a subsequence of the input: the
  survivors keep their relative order. In particular an input in descending order of
  stars gives an output in descending order of stars.
\<close>

theorem rank_preservation:
  "subseq (filteredRepositories rs) rs
   \<and> (sorted_wrt (\<lambda>a b. stargazers_count b \<le> stargazers_count a) rs
      \<longrightarrow> sorted_wrt (\<lambda>a b. stargazers_count b \<le> stargazers_count a) (filteredRepositories rs))"
  by (simp add: filteredRepositories_def sorted_wrt_filter)

theorem rank_preservation_witness:
  "sorted_wrt (\<lambda>a b. stargazers_count b \<le> stargazers_count a) [parser_repo, vision_repo, chat_repo]
   \<and> filteredRepositories [parser_repo, vision_repo, chat_repo] = [vision_repo, chat_repo]
   \<and> subseq [vision_repo, chat_repo] [parser_repo, vision_repo, chat_repo]
   \<and> sorted_wrt (\<lambda>a b. stargazers_count b \<le> stargazers_count a) [vision_repo, chat_repo]"
proof -
  have s: "sorted_wrt (\<lambda>a b. stargazers_count b \<le> stargazers_count a) [parser_repo, vision_repo, chat_repo]"
    by (simp add: parser_repo_def vision_repo_def chat_repo_def)
  have f: "filteredRepositories [parser_repo, vision_repo, chat_repo] = [vision_repo, chat_repo]"
    by code_simp
  from rank_preservation [of "[parser_repo, vision_repo, chat_repo]"] s f show ?thesis by simp
qed

section \<open>Properties of the search query\<close>

lemma Day_minus_week: "Day (t - 7 * msPerDay) = Day t - 7"
  by (simp add: Day_def msPerDay_def)

lemma setDate_getDate_fixed_zone:
  "setDate (fixed_zone offset) t (getDate (fixed_zone offset) t - 7) = t - 7 * msPerDay"
proof -
  have "Day x * msPerDay + TimeWithinDay x = x" for x
    by (simp add: Day_def TimeWithinDay_def)
  then have "(Day x - 7) * msPerDay + TimeWithinDay x = x - 7 * msPerDay" for x
    by (simp add: algebra_simps)
  then show ?thesis
    by (simp add: setDate_def getDate_def LocalTime_def UTC_def fixed_zone_def Let_def)
qed

lemma digit_char_not_T: "digit_char n \<noteq> CHR ''T''"
proof -
  have "(of_char (digit_char n) :: nat) = 48 + n mod 10"
    by (simp add: digit_char_def)
  moreover have "(of_char (CHR ''T'') :: nat) = 84" by simp
  ultimately show ?thesis by auto
qed

lemma pad_no_T: "CHR ''T'' \<notin> set (pad w n)"
  by (induction w arbitrary: n) (auto simp: digit_char_not_T [symmetric])

lemma iso_date_no_T: "CHR ''T'' \<notin> set (iso_date n)"
  by (auto simp: iso_date_def year_string_def pad_no_T split: prod.splits)

lemma before_T_toISOString: "before_T (toISOString t) = iso_date (Day t)"
proof -
  have "\<forall>c \<in> set (iso_date (Day t)). c \<noteq> CHR ''T''" using iso_date_no_T by blast
  then show ?thesis
    by (simp add: before_T_def toISOString_def Let_def takeWhile_append2)
qed

text \<open>
  The address asks for the topic \<^verbatim>\<open>ai\<close> and a creation date after the cutoff, sorted by
  stars in descending order, 30 items, one page.
\<close>

lemma github_url_query:
  "github_url zone t =
     ''https://api.github.com/search/repositories?q=topic%3Aai%20created%3A%3E''
       @ encodeURIComponent (dateString zone t) @ ''&sort=stars&order=desc&per_page=30''"
proof -
  have enc: "encodeURIComponent ''topic:ai created:>'' = ''topic%3Aai%20created%3A%3E''"
    by code_simp
  have app: "encodeURIComponent (a @ b) = encodeURIComponent a @ encodeURIComponent b" for a b
    by (simp add: encodeURIComponent_def)
  show ?thesis unfolding github_url_def query_def app enc by simp
qed

text \<open>
  In a zone whose offset does not change, such as UTC, the cutoff is the calendar date
  seven days before the UTC date of the clock reading.
\<close>

lemma dateString_fixed_zone: "dateString (fixed_zone offset) t = iso_date (Day t - 7)"
  by (simp add: dateString_def setDate_getDate_fixed_zone before_T_toISOString Day_minus_week)

lemma cutoff_example_utc:
  "github_url (fixed_zone 0) 1730248200000 =
     ''https://api.github.com/search/repositories?q=topic%3Aai%20created%3A%3E2024-10-23&sort=stars&order=desc&per_page=30''"
  by code_simp

text \<open>
  Claim C5 (the cutoff of the query) does not hold in every zone. The source moves the
  date back with \<^verbatim>\<open>getDate\<close> and \<^verbatim>\<open>setDate\<close>, which work on local time, and prints
  it with \<^verbatim>\<open>toISOString\<close>, which prints UTC. Where the offset of the zone has changed
  within the last seven days the time value moves by seven days and an hour. In Israel on
  2024-10-30 at 00:30 UTC (02:30 local time, three days after the end of summer time) the
  cutoff of the source is 2024-10-22, while the date seven days before is 2024-10-23 both
  in the UTC calendar and in the local calendar.
\<close>

theorem cutoff_after_clock_change:
  "toISOString 1730248200000 = ''2024-10-30T00:30:00.000Z''
   \<and> toISOString (LocalTime jerusalem_autumn_2024 1730248200000) = ''2024-10-30T02:30:00.000Z''
   \<and> dateString jerusalem_autumn_2024 1730248200000 = ''2024-10-22''
   \<and> github_url jerusalem_autumn_2024 1730248200000 =
        ''https://api.github.com/search/repositories?q=topic%3Aai%20created%3A%3E2024-10-22&sort=stars&order=desc&per_page=30''
   \<and> iso_date (Day 1730248200000 - 7) = ''2024-10-23''
   \<and> iso_date (Day (LocalTime jerusalem_autumn_2024 1730248200000) - 7) = ''2024-10-23''"
  by code_simp

section \<open>The caching directive\<close>

text \<open>
  The two responses that serve data from the cache or from a successful call carry the
  directive; the responses after a failure carry no headers from the handler.
\<close>

lemma headers_on_success:
  assumes "served_from_cache clk c req
     \<or> (\<exists>r items. fetch (github_url zone (query_time clk)) = Resolves r \<and> ok r
           \<and> json r = Inr (Some items))"
  shows "map_of (headers (result (GET zone clk fetch c req))) ''Cache-Control''
           = Some ''public, s-maxage=300, stale-while-revalidate=600''"
proof (cases "served_from_cache clk c req")
  case True
  then obtain d where "data c = Some d" by (auto simp: served_from_cache_def)
  from GET_served_from_cache [OF this True] show ?thesis
    by (simp add: cached_response_def cache_headers_def)
next
  case False
  with assms obtain r items where
    "fetch (github_url zone (query_time clk)) = Resolves r" "ok r" "json r = Inr (Some items)"
    by blast
  with False have "result (GET_try zone clk fetch c req)
      = Inr (fresh_response (filteredRepositories items) (now clk))"
    by (auto simp: GET_try_def served_from_cache_def Let_def)
  then show ?thesis
    by (simp add: GET_def Let_def fresh_response_def cache_headers_def)
qed

lemma headers_on_failure:
  assumes "\<not> served_from_cache clk c req"
    and "upstream_fails (fetch (github_url zone (query_time clk)))"
  shows "headers (result (GET zone clk fetch c req)) = []"
proof (cases "result (GET_try zone clk fetch c req)")
  case (Inl e)
  then show ?thesis
    by (simp add: GET_def Let_def GET_catch_def stale_response_def error_response_def
          split: option.splits)
next
  case (Inr r)
  with GET_try_failure_result [of clk c req fetch zone r] assms show ?thesis
    by (auto simp: GET_def Let_def stale_response_def)
qed

text \<open>
  Claim C8 (every response carries the caching directive) fails on the fallback paths.
  With a cache filled thirty minutes ago and a search API that answers 503, the response
  has status 200, a warning and no \<^verbatim>\<open>Cache-Control\<close> header; with an empty cache the
  response with status 500 has none either.
\<close>

theorem fallback_without_cache_control:
  "status (result (GET (fixed_zone 0) clock_30min fetch_503 filled_cache plain_request)) = 200
   \<and> warning (body (result (GET (fixed_zone 0) clock_30min fetch_503 filled_cache plain_request)))
        = Some ''Using stale cached data due to GitHub API error''
   \<and> map_of (headers (result (GET (fixed_zone 0) clock_30min fetch_503 filled_cache plain_request)))
        ''Cache-Control'' = None
   \<and> status (result (GET (fixed_zone 0) clock_30s fetch_503 initial_cache plain_request)) = 500
   \<and> map_of (headers (result (GET (fixed_zone 0) clock_30s fetch_503 initial_cache plain_request)))
        ''Cache-Control'' = None"
  by (simp add: GET_def GET_try_def GET_catch_def Let_def filled_cache_def initial_cache_def
        clock_30min_def clock_30s_def plain_request_def forceRefresh_def fetch_503_def ok_def
        CACHE_DURATION_def upstream_error_def stale_response_def error_response_def)

section \<open>Properties of the summarisation route\<close>

text \<open>
  Claim C9 (validation of a summarisation request). A request whose text is empty, whose
  credential is empty, or whose provider selector is not one of the supported values
  fails with a validation error, and no provider endpoint is called.
\<close>

theorem summarize_validation:
  assumes "text_to_summarize req = [] \<or> credential req = []
           \<or> providerSelector req \<notin> {''openai'', ''groq''}"
  shows "summarize call_provider req = (Inl ValidationError, [])"
  using assms by (auto simp: summarize_def parse_provider_def)

theorem summarize_validation_witness:
  "providerSelector \<lparr>text_to_summarize = ''chat: An LLM front end'', credential = ''sk-123'',
                     providerSelector = ''claude''\<rparr> \<notin> {''openai'', ''groq''}
   \<and> summarize (\<lambda>c. Inr ''A summary.'')
        \<lparr>text_to_summarize = ''chat: An LLM front end'', credential = ''sk-123'',
         providerSelector = ''claude''\<rparr> = (Inl ValidationError, [])
   \<and> summarize (\<lambda>c. Inr ''A summary.'')
        \<lparr>text_to_summarize = '''', credential = ''sk-123'',
         providerSelector = ''groq''\<rparr> = (Inl ValidationError, [])
   \<and> summarize (\<lambda>c. Inr ''A summary.'')
        \<lparr>text_to_summarize = ''chat: An LLM front end'', credential = '''',
         providerSelector = ''openai''\<rparr> = (Inl ValidationError, [])"
  using summarize_validation [of "\<lparr>text_to_summarize = ''chat: An LLM front end'', credential = ''sk-123'',
                     providerSelector = ''claude''\<rparr>" "\<lambda>c. Inr ''A summary.''"]
    summarize_validation [of "\<lparr>text_to_summarize = '''', credential = ''sk-123'',
                     providerSelector = ''groq''\<rparr>" "\<lambda>c. Inr ''A summary.''"]
    summarize_validation [of "\<lparr>text_to_summarize = ''chat: An LLM front end'', credential = '''',
                     providerSelector = ''openai''\<rparr>" "\<lambda>c. Inr ''A summary.''"]
  by simp

lemma summarize_dispatches:
  "summarize (\<lambda>c. Inr ''A summary.'')
        \<lparr>text_to_summarize = ''chat: An LLM front end'', credential = ''sk-123'',
         providerSelector = ''groq''\<rparr>
     = (Inr (''A summary.'', Groq),
        [\<lparr>target = Groq, api_key = ''sk-123'', subject = ''chat: An LLM front end''\<rparr>])"
  by (simp add: summarize_def parse_provider_def)

end
